theory Spec2Isabelle
  imports Main "HOL-Library.Word"
begin

section \<open>Data model: admin/client/src/types/index.ts\<close>

text \<open>
  The admin client is a React single-page application. Its wire types are TypeScript
  interfaces; each becomes a record with the same field names. An optional field
  (\<open>error?: string\<close>) and a nullable one (\<open>string | null\<close>) are options, a union of
  string literals is a datatype, and a JavaScript number that only carries a count or
  a percentage is an \<open>int\<close>.
\<close>

datatype job_status = Idle | Rebuilding | Reloading | Completed | Failed

datatype trigger = Enroll | Delete | Add_image | Delete_image | Manual

record ApiResponse =
  success :: bool
  message :: "string option"
  error :: "string option"
  rebuild_started :: "bool option"
  rebuild_message :: "string option"

record RebuildStatus =
  is_rebuilding :: bool
  progress :: int
  status :: job_status
  message :: string
  started_at :: "string option"
  completed_at :: "string option"
  last_error :: "string option"
  triggered_by :: "trigger option"

record DatabaseInfo =
  exists :: bool
  size :: int
  modified :: "string option"

record StatsResponse =
  total_identities :: int
  total_images :: int
  database :: DatabaseInfo
  rebuild_status :: RebuildStatus

text \<open>\<open>ApiResponse & { status?: RebuildStatus }\<close>, the result type of \<open>rebuildDatabase\<close>.\<close>

record RebuildResponse = ApiResponse +
  status :: "RebuildStatus option"

text \<open>
  A JavaScript object is a finite table from property names to values. The two
  functions below list, property by property, the object that a value of an interface
  is, so that a statement about the name of a field is a statement about a lookup.
\<close>

datatype json = JNull | JBool bool | JNum int | JStr string | JObj "(string \<times> json) list"

fun job_status_str :: "job_status \<Rightarrow> string" where
  "job_status_str Idle = ''idle''"
| "job_status_str Rebuilding = ''rebuilding''"
| "job_status_str Reloading = ''reloading''"
| "job_status_str Completed = ''completed''"
| "job_status_str Failed = ''failed''"

fun trigger_str :: "trigger \<Rightarrow> string" where
  "trigger_str Enroll = ''enroll''"
| "trigger_str Delete = ''delete''"
| "trigger_str Add_image = ''add_image''"
| "trigger_str Delete_image = ''delete_image''"
| "trigger_str Manual = ''manual''"

definition nullable :: "('a \<Rightarrow> json) \<Rightarrow> 'a option \<Rightarrow> json" where
  "nullable f v = (case v of None \<Rightarrow> JNull | Some x \<Rightarrow> f x)"

definition RebuildStatus_object :: "RebuildStatus \<Rightarrow> (string \<times> json) list" where
  "RebuildStatus_object r =
     [(''is_rebuilding'', JBool (is_rebuilding r)),
      (''progress'', JNum (progress r)),
      (''status'', JStr (job_status_str (RebuildStatus.status r))),
      (''message'', JStr (RebuildStatus.message r)),
      (''started_at'', nullable JStr (started_at r)),
      (''completed_at'', nullable JStr (completed_at r)),
      (''last_error'', nullable JStr (last_error r)),
      (''triggered_by'', nullable (JStr \<circ> trigger_str) (triggered_by r))]"

text \<open>An optional property that is absent is not a key of the object.\<close>

definition optional :: "string \<Rightarrow> ('a \<Rightarrow> json) \<Rightarrow> 'a option \<Rightarrow> (string \<times> json) list" where
  "optional k f v = (case v of None \<Rightarrow> [] | Some x \<Rightarrow> [(k, f x)])"

definition RebuildResponse_object :: "RebuildResponse \<Rightarrow> (string \<times> json) list" where
  "RebuildResponse_object r =
     [(''success'', JBool (success r))]
     @ optional ''message'' JStr (ApiResponse.message r)
     @ optional ''error'' JStr (error r)
     @ optional ''rebuild_started'' JBool (rebuild_started r)
     @ optional ''rebuild_message'' JStr (rebuild_message r)
     @ optional ''status'' (JObj \<circ> RebuildStatus_object) (RebuildResponse.status r)"

section \<open>JavaScript idioms used by the client\<close>

text \<open>
  \<open>a || d\<close> on strings yields \<open>d\<close> when \<open>a\<close> is \<open>undefined\<close> or the empty string.
  \<open>if (x)\<close> on an optional boolean holds only for \<open>true\<close>; on a nullable number
  (a timer handle) it holds for every number except \<open>0\<close>.
\<close>

definition or_else :: "string \<Rightarrow> string \<Rightarrow> string" where
  "or_else a d = (if a = [] then d else a)"

definition opt_or_else :: "string option \<Rightarrow> string \<Rightarrow> string" where
  "opt_or_else a d = (case a of None \<Rightarrow> d | Some x \<Rightarrow> or_else x d)"

definition truthy_bool :: "bool option \<Rightarrow> bool" where
  "truthy_bool b = (b = Some True)"

definition truthy_num :: "nat option \<Rightarrow> bool" where
  "truthy_num h = (case h of None \<Rightarrow> False | Some n \<Rightarrow> n \<noteq> 0)"

definition toString_bool :: "bool \<Rightarrow> string" where
  "toString_bool b = (if b then ''true'' else ''false'')"

text \<open>
  Text that the user types and the client sends is a JavaScript string: a list of UTF-16
  code units. \<open>lit\<close> is a string literal of the source. \<open>String.prototype.trim\<close>
  removes, at both ends, the white space and the line terminators of ECMAScript: TAB, LF,
  VT, FF, CR, SP, NBSP, U+1680, U+2000 to U+200A, LS, PS, U+202F, U+205F, U+3000 and
  U+FEFF. Each of them is one code unit.
\<close>

type_synonym js_string = "16 word list"

definition lit :: "string \<Rightarrow> js_string" where
  "lit x = map (\<lambda>c. of_nat (of_char c)) x"

definition is_space :: "16 word \<Rightarrow> bool" where
  "is_space c =
     (c = 0x0009 \<or> c = 0x000A \<or> c = 0x000B \<or> c = 0x000C \<or> c = 0x000D \<or> c = 0x0020
      \<or> c = 0x00A0 \<or> c = 0x1680 \<or> (0x2000 \<le> c \<and> c \<le> 0x200A)
      \<or> c = 0x2028 \<or> c = 0x2029 \<or> c = 0x202F \<or> c = 0x205F \<or> c = 0x3000
      \<or> c = 0xFEFF)"

definition trim :: "js_string \<Rightarrow> js_string" where
  "trim x = rev (dropWhile is_space (rev (dropWhile is_space x)))"

section \<open>HTTP requests: admin/client/src/services/api.ts\<close>

text \<open>
  Each function of \<open>api.ts\<close> builds one request and returns the body of the response.
  The model splits the two: the request is a value, and the awaited response is an
  argument of the caller, \<open>Inl\<close> when axios rejects (network error or error status).
\<close>

datatype http_method = GET | POST

type_synonym js_file = string

datatype form_value = Text js_string | Blob js_file

record request =
  meth :: http_method
  url :: string
  form :: "(string \<times> form_value) list"

datatype api_error = AxiosError string

text \<open>A parameter with a default (\<open>autoRebuild: boolean = true\<close>) may be left out.\<close>

definition default_true :: "bool option \<Rightarrow> bool" where
  "default_true a = (case a of None \<Rightarrow> True | Some b \<Rightarrow> b)"

definition enrollPerson :: "js_string \<Rightarrow> js_string \<Rightarrow> js_file list \<Rightarrow> bool option \<Rightarrow> request" where
  "enrollPerson name info images autoRebuild =
     \<lparr>meth = POST, url = ''/api/enroll'',
      form = [(''name'', Text name), (''info'', Text info),
              (''auto_rebuild'', Text (lit (toString_bool (default_true autoRebuild))))]
             @ map (\<lambda>f. (''images'', Blob f)) images\<rparr>"

definition addImage :: "js_string \<Rightarrow> js_file \<Rightarrow> bool option \<Rightarrow> request" where
  "addImage person img autoRebuild =
     \<lparr>meth = POST, url = ''/api/add_image'',
      form = [(''person'', Text person), (''image'', Blob img),
              (''auto_rebuild'', Text (lit (toString_bool (default_true autoRebuild))))]\<rparr>"

definition deletePerson :: "js_string \<Rightarrow> bool option \<Rightarrow> request" where
  "deletePerson person autoRebuild =
     \<lparr>meth = POST, url = ''/api/delete_person'',
      form = [(''person'', Text person),
              (''auto_rebuild'', Text (lit (toString_bool (default_true autoRebuild))))]\<rparr>"

definition deleteImage :: "js_string \<Rightarrow> js_string \<Rightarrow> bool option \<Rightarrow> request" where
  "deleteImage person filename autoRebuild =
     \<lparr>meth = POST, url = ''/api/delete_image'',
      form = [(''person'', Text person), (''filename'', Text filename),
              (''auto_rebuild'', Text (lit (toString_bool (default_true autoRebuild))))]\<rparr>"

definition rebuildDatabase :: request where
  "rebuildDatabase = \<lparr>meth = POST, url = ''/api/rebuild_db'', form = []\<rparr>"

definition getRebuildStatus :: request where
  "getRebuildStatus = \<lparr>meth = GET, url = ''/api/rebuild_status'', form = []\<rparr>"

definition getStats :: request where
  "getStats = \<lparr>meth = GET, url = ''/api/stats'', form = []\<rparr>"

section \<open>The Dashboard component: admin/client/src/pages/Dashboard.tsx\<close>

text \<open>
  The component's state is its three \<open>useState\<close> cells and the \<open>useRef\<close> cell holding
  the handle of the poll timer. Two more fields stand for the browser: the interval
  timers that are active (handle and period in milliseconds) and the next handle
  \<open>window.setInterval\<close> will return. The last field records, in order, what the
  component did that is visible outside it: requests sent and toasts shown.

  An \<open>async\<close> handler runs up to its first \<open>await\<close>, and the rest of it runs when the
  response arrives; in between, timers fire and other handlers run. The field
  \<open>pending\<close> holds the handlers that wait for a response, each with what its
  continuation needs.

  Each handler is given twice. The function that carries the source's name takes the
  responses as arguments and is the handler with every \<open>await\<close> answered at once. The
  functions that end in \<open>_call\<close> and \<open>_resume\<close> are its pieces, cut at each
  \<open>await\<close>; the machine of events below runs the pieces.
\<close>

datatype task =
    InitialLoad
  | Refresh
  | PollStatus
  | PollRefresh RebuildStatus
  | RebuildPost

datatype toast_type = Success | Error | Warning | Info

datatype effect =
    Http request
  | Toast string toast_type
  | Navigate string
  | OnPersonDeleted
  | OnClose
  | OnImageAdded

record dashboard =
  stats :: "StatsResponse option"
  rebuildStatus :: "RebuildStatus option"
  loading :: bool
  pollIntervalRef :: "nat option"
  intervals :: "(nat \<times> nat) list"
  next_handle :: nat
  effects :: "effect list"
  pending :: "task list"

definition initial :: "nat \<Rightarrow> dashboard" where
  "initial n = \<lparr>stats = None, rebuildStatus = None, loading = True, pollIntervalRef = None,
                intervals = [], next_handle = n, effects = [], pending = []\<rparr>"

definition setInterval :: "nat \<Rightarrow> dashboard \<Rightarrow> nat \<times> dashboard" where
  "setInterval ms s =
     (next_handle s,
      s\<lparr>intervals := intervals s @ [(next_handle s, ms)], next_handle := Suc (next_handle s)\<rparr>)"

definition clearInterval :: "nat \<Rightarrow> dashboard \<Rightarrow> dashboard" where
  "clearInterval h s = s\<lparr>intervals := filter (\<lambda>t. fst t \<noteq> h) (intervals s)\<rparr>"

definition showToast :: "string \<Rightarrow> toast_type \<Rightarrow> dashboard \<Rightarrow> dashboard" where
  "showToast msg ty s = s\<lparr>effects := effects s @ [Toast msg ty]\<rparr>"

definition send :: "request \<Rightarrow> dashboard \<Rightarrow> dashboard" where
  "send rq s = s\<lparr>effects := effects s @ [Http rq]\<rparr>"

definition loadStats :: "api_error + StatsResponse \<Rightarrow> dashboard \<Rightarrow> RebuildStatus option \<times> dashboard" where
  "loadStats resp s =
     (case resp of
        Inr data \<Rightarrow>
          (Some (rebuild_status data),
           (send getStats s)\<lparr>stats := Some data, rebuildStatus := Some (rebuild_status data),
                              loading := False\<rparr>)
      | Inl e \<Rightarrow>
          (None, (showToast ''Failed to load dashboard data'' Error (send getStats s))
                   \<lparr>loading := False\<rparr>))"

definition terminal :: "RebuildStatus \<Rightarrow> bool" where
  "terminal st = (RebuildStatus.status st = Completed \<or> RebuildStatus.status st = Failed)"

definition stop_polling :: "dashboard \<Rightarrow> dashboard" where
  "stop_polling s =
     (if truthy_num (pollIntervalRef s)
      then (clearInterval (the (pollIntervalRef s)) s)\<lparr>pollIntervalRef := None\<rparr>
      else s)"

definition pollRebuildStatus ::
  "api_error + RebuildStatus \<Rightarrow> api_error + StatsResponse \<Rightarrow> dashboard
     \<Rightarrow> RebuildStatus option \<times> dashboard" where
  "pollRebuildStatus resp stats_resp s =
     (case resp of
        Inl e \<Rightarrow> (None, send getRebuildStatus s)
      | Inr st \<Rightarrow>
          (let s1 = (send getRebuildStatus s)\<lparr>rebuildStatus := Some st\<rparr> in
           if terminal st then
             (let s2 = snd (loadStats stats_resp s1);
                  s3 = stop_polling s2;
                  s4 = (if RebuildStatus.status st = Completed
                        then showToast (or_else (RebuildStatus.message st)
                                          ''Database rebuild completed!'') Success s3
                        else if RebuildStatus.status st = Failed
                        then showToast (or_else (RebuildStatus.message st)
                                          ''Database rebuild failed'') Error s3
                        else s3)
              in (Some st, s4))
           else (Some st, s1)))"

definition startPolling :: "dashboard \<Rightarrow> dashboard" where
  "startPolling s =
     (if truthy_num (pollIntervalRef s) then s
      else (let (h, s') = setInterval 1000 s in s'\<lparr>pollIntervalRef := Some h\<rparr>))"

definition is_rebuilding_opt :: "RebuildStatus option \<Rightarrow> bool" where
  "is_rebuilding_opt r = (case r of None \<Rightarrow> False | Some st \<Rightarrow> is_rebuilding st)"

text \<open>The body of \<open>useEffect\<close>, run at mount, and the cleanup it returns, run at unmount.\<close>

definition mount :: "api_error + StatsResponse \<Rightarrow> dashboard \<Rightarrow> dashboard" where
  "mount resp s =
     (let (st, s') = loadStats resp s in
      if is_rebuilding_opt st then startPolling s' else s')"

definition cleanup :: "dashboard \<Rightarrow> dashboard" where
  "cleanup s =
     (if truthy_num (pollIntervalRef s) then clearInterval (the (pollIntervalRef s)) s else s)"

definition handleRebuild :: "api_error + RebuildResponse \<Rightarrow> dashboard \<Rightarrow> dashboard" where
  "handleRebuild resp s =
     (if is_rebuilding_opt (rebuildStatus s) then showToast ''Rebuild already in progress'' Warning s
      else
        (case resp of
           Inr response \<Rightarrow>
             (if success response
              then startPolling (showToast ''Database rebuild started...'' Info (send rebuildDatabase s))
              else showToast (''Failed to start rebuild: '' @ opt_or_else (error response) ''Unknown error'')
                     Error (send rebuildDatabase s))
         | Inl e \<Rightarrow> showToast ''Failed to start database rebuild'' Error (send rebuildDatabase s)))"

text \<open>
  What the render shows of the rebuild: the spinner replaces the whole page while
  \<open>loading\<close>; the progress bar is the element guarded by \<open>rebuildStatus?.is_rebuilding\<close>.
\<close>

definition progress_indicator :: "dashboard \<Rightarrow> int option" where
  "progress_indicator s =
     (if loading s then None
      else case rebuildStatus s of
             None \<Rightarrow> None
           | Some r \<Rightarrow> if is_rebuilding r then Some (progress r) else None)"

subsection \<open>The handlers cut at their awaits\<close>

definition await :: "task \<Rightarrow> dashboard \<Rightarrow> dashboard" where
  "await t s = s\<lparr>pending := pending s @ [t]\<rparr>"

definition loadStats_call :: "dashboard \<Rightarrow> dashboard" where
  "loadStats_call s = send getStats s"

definition loadStats_resume ::
  "api_error + StatsResponse \<Rightarrow> dashboard \<Rightarrow> RebuildStatus option \<times> dashboard" where
  "loadStats_resume resp s =
     (case resp of
        Inr data \<Rightarrow>
          (Some (rebuild_status data),
           s\<lparr>stats := Some data, rebuildStatus := Some (rebuild_status data), loading := False\<rparr>)
      | Inl e \<Rightarrow>
          (None, (showToast ''Failed to load dashboard data'' Error s)\<lparr>loading := False\<rparr>))"

text \<open>\<open>pollRebuildStatus\<close>: up to \<open>await getRebuildStatus()\<close>, from there to
  \<open>await loadStats()\<close>, and from there to the end.\<close>

definition pollRebuildStatus_call :: "dashboard \<Rightarrow> dashboard" where
  "pollRebuildStatus_call s = await PollStatus (send getRebuildStatus s)"

definition pollRebuildStatus_resume :: "api_error + RebuildStatus \<Rightarrow> dashboard \<Rightarrow> dashboard" where
  "pollRebuildStatus_resume resp s =
     (case resp of
        Inl e \<Rightarrow> s
      | Inr st \<Rightarrow>
          (let s1 = s\<lparr>rebuildStatus := Some st\<rparr> in
           if terminal st then await (PollRefresh st) (loadStats_call s1) else s1))"

definition pollRebuildStatus_finish ::
  "RebuildStatus \<Rightarrow> api_error + StatsResponse \<Rightarrow> dashboard \<Rightarrow> dashboard" where
  "pollRebuildStatus_finish st stats_resp s =
     (let s2 = snd (loadStats_resume stats_resp s);
          s3 = stop_polling s2
      in if RebuildStatus.status st = Completed
         then showToast (or_else (RebuildStatus.message st) ''Database rebuild completed!'')
                Success s3
         else if RebuildStatus.status st = Failed
         then showToast (or_else (RebuildStatus.message st) ''Database rebuild failed'') Error s3
         else s3)"

text \<open>The effect at mount: \<open>loadStats()\<close> up to its await, and the \<open>then\<close> callback.\<close>

definition mount_call :: "dashboard \<Rightarrow> dashboard" where
  "mount_call s = await InitialLoad (loadStats_call s)"

definition mount_resume :: "api_error + StatsResponse \<Rightarrow> dashboard \<Rightarrow> dashboard" where
  "mount_resume resp s =
     (let (st, s') = loadStats_resume resp s in
      if is_rebuilding_opt st then startPolling s' else s')"

text \<open>\<open>handleRebuild\<close>: the guard and the request, and what follows the response.\<close>

definition handleRebuild_call :: "dashboard \<Rightarrow> dashboard" where
  "handleRebuild_call s =
     (if is_rebuilding_opt (rebuildStatus s) then showToast ''Rebuild already in progress'' Warning s
      else await RebuildPost (send rebuildDatabase s))"

definition handleRebuild_resume :: "api_error + RebuildResponse \<Rightarrow> dashboard \<Rightarrow> dashboard" where
  "handleRebuild_resume resp s =
     (case resp of
        Inr response \<Rightarrow>
          (if success response
           then startPolling (showToast ''Database rebuild started...'' Info s)
           else showToast (''Failed to start rebuild: '' @ opt_or_else (error response) ''Unknown error'')
                  Error s)
      | Inl e \<Rightarrow> showToast ''Failed to start database rebuild'' Error s)"

subsection \<open>The component as a machine driven by events\<close>

text \<open>
  The events a Dashboard reacts to: the effect at mount, a firing of an interval timer, a
  click on either button, the unmount, and the arrival of the response that a pending
  handler waits for. Responses arrive in any order. A timer that is not active does not
  fire; the only callback ever registered is \<open>pollRebuildStatus\<close>. The unmount runs the
  cleanup and nothing else: handlers that wait for a response are not cancelled, and their
  continuations run when the response arrives. After the unmount React ignores what they
  write to the three state cells; the ref, the timers and the toasts are not React state.
\<close>

datatype reply =
    StatsReply "api_error + StatsResponse"
  | StatusReply "api_error + RebuildStatus"
  | RebuildReply "api_error + RebuildResponse"

datatype event =
    Mount
  | Tick nat
  | ClickRebuild
  | ClickRefresh
  | Unmount
  | Deliver nat reply

fun resume :: "task \<Rightarrow> reply \<Rightarrow> dashboard \<Rightarrow> dashboard option" where
  "resume InitialLoad (StatsReply r) s = Some (mount_resume r s)"
| "resume Refresh (StatsReply r) s = Some (snd (loadStats_resume r s))"
| "resume PollStatus (StatusReply r) s = Some (pollRebuildStatus_resume r s)"
| "resume (PollRefresh st) (StatsReply r) s = Some (pollRebuildStatus_finish st r s)"
| "resume RebuildPost (RebuildReply r) s = Some (handleRebuild_resume r s)"
| "resume t r s = None"

definition remove_nth :: "nat \<Rightarrow> 'a list \<Rightarrow> 'a list" where
  "remove_nth i xs = take i xs @ drop (Suc i) xs"

text \<open>\<open>Deliver i r\<close> hands the reply \<open>r\<close> to the \<open>i\<close>-th pending handler. With no such
  handler, or one that waits for another kind of reply, nothing happens.\<close>

definition deliver :: "nat \<Rightarrow> reply \<Rightarrow> dashboard \<Rightarrow> dashboard" where
  "deliver i r s =
     (if i < length (pending s)
      then (case resume (pending s ! i) r (s\<lparr>pending := remove_nth i (pending s)\<rparr>) of
              Some s' \<Rightarrow> s'
            | None \<Rightarrow> s)
      else s)"

fun step :: "event \<Rightarrow> dashboard \<Rightarrow> dashboard" where
  "step Mount s = mount_call s"
| "step (Tick h) s = (if h \<in> fst ` set (intervals s) then pollRebuildStatus_call s else s)"
| "step ClickRebuild s = handleRebuild_call s"
| "step ClickRefresh s = await Refresh (loadStats_call s)"
| "step Unmount s = cleanup s"
| "step (Deliver i r) s = deliver i r s"

fun run :: "event list \<Rightarrow> dashboard \<Rightarrow> dashboard" where
  "run [] s = s"
| "run (e # es) s = run es (step e s)"

text \<open>A firing of timer \<open>h\<close> whose requests are answered before anything else happens:
  the status by \<open>r\<close> and, when the poll goes on to the refresh, the statistics by
  \<open>sr\<close>.\<close>

definition answered_tick ::
  "nat \<Rightarrow> api_error + RebuildStatus \<Rightarrow> api_error + StatsResponse \<Rightarrow> dashboard \<Rightarrow> dashboard" where
  "answered_tick h r sr s =
     run [Tick h, Deliver (length (pending s)) (StatusReply r),
          Deliver (length (pending s)) (StatsReply sr)] s"

definition new_effects :: "dashboard \<Rightarrow> dashboard \<Rightarrow> effect list" where
  "new_effects s s' = drop (length (effects s)) (effects s')"

fun is_toast :: "effect \<Rightarrow> bool" where
  "is_toast (Toast m t) = True"
| "is_toast e = False"

text \<open>
  Two facts about the timers that every run keeps. The first holds always: at most one
  interval is active, it has the period 1000 and a non-zero handle, and the ref holds
  it. The second holds until the unmount, whose cleanup clears the timer but leaves the
  handle in the ref: with no timer active, the ref is empty.
\<close>

definition poll_inv :: "dashboard \<Rightarrow> bool" where
  "poll_inv s =
     (0 < next_handle s \<and>
      (case intervals s of
         [] \<Rightarrow> True
       | [t] \<Rightarrow> 0 < fst t \<and> snd t = 1000 \<and> pollIntervalRef s = Some (fst t)
       | _ \<Rightarrow> False))"

definition live_inv :: "dashboard \<Rightarrow> bool" where
  "live_inv s = (poll_inv s \<and> (intervals s = [] \<longrightarrow> pollIntervalRef s = None))"

section \<open>The forms that change the database: pages/Enroll.tsx and components/PersonModal.tsx\<close>

text \<open>
  The four handlers share one shape: validate, send the request with \<open>autoRebuild\<close>
  left out, then toast by the response. Each returns the component's new state and the
  effects in order. \<open>confirm\<close> is the user's answer to the browser's dialogue.
\<close>

definition rebuild_notice :: "'a ApiResponse_scheme \<Rightarrow> effect list" where
  "rebuild_notice response =
     (if truthy_bool (rebuild_started response)
      then [Toast ''Database rebuild started automatically...'' Info] else [])"

record enroll =
  name :: js_string
  info :: js_string
  files :: "js_file list option"
  isSubmitting :: bool

definition handleSubmit :: "api_error + ApiResponse \<Rightarrow> enroll \<Rightarrow> enroll \<times> effect list" where
  "handleSubmit resp s =
     (if trim (name s) = [] then (s, [Toast ''Person name cannot be empty.'' Warning])
      else if files s = None \<or> files s = Some []
      then (s, [Toast ''Please select at least one image.'' Warning])
      else
        (let rq = Http (enrollPerson (trim (name s)) (info s) (the (files s)) None) in
         case resp of
           Inr response \<Rightarrow>
             (if success response
              then (s\<lparr>name := [], info := [], files := None, isSubmitting := False\<rparr>,
                    [rq, Toast (opt_or_else (ApiResponse.message response)
                                  ''Person enrolled successfully'') Success]
                    @ rebuild_notice response @ [Navigate ''/identities''])
              else (s\<lparr>isSubmitting := False\<rparr>,
                    [rq, Toast (opt_or_else (error response) ''Enrollment failed'') Error]))
         | Inl e \<Rightarrow> (s\<lparr>isSubmitting := False\<rparr>, [rq, Toast ''Failed to enroll person'' Error])))"

record person_modal =
  selectedFile :: "js_file option"
  isDeleting :: bool
  isAdding :: bool
  deletingImage :: "string option"

definition handleDelete ::
  "js_string \<Rightarrow> bool \<Rightarrow> api_error + ApiResponse \<Rightarrow> person_modal \<Rightarrow> person_modal \<times> effect list" where
  "handleDelete person confirm resp s =
     (if \<not> confirm then (s, [])
      else
        (let rq = Http (deletePerson person None) in
         case resp of
           Inr response \<Rightarrow>
             (if success response
              then (s\<lparr>isDeleting := False\<rparr>,
                    [rq, Toast (opt_or_else (ApiResponse.message response)
                                  ''Person deleted successfully'') Success]
                    @ rebuild_notice response @ [OnPersonDeleted, OnClose])
              else (s\<lparr>isDeleting := False\<rparr>,
                    [rq, Toast (opt_or_else (error response) ''Failed to delete person'') Error]))
         | Inl e \<Rightarrow> (s\<lparr>isDeleting := False\<rparr>, [rq, Toast ''Failed to delete person'' Error])))"

definition handleAddImage ::
  "js_string \<Rightarrow> api_error + ApiResponse \<Rightarrow> person_modal \<Rightarrow> person_modal \<times> effect list" where
  "handleAddImage person resp s =
     (case selectedFile s of
        None \<Rightarrow> (s, [Toast ''Please select an image'' Warning])
      | Some f \<Rightarrow>
        (let rq = Http (addImage person f None) in
         case resp of
           Inr response \<Rightarrow>
             (if success response
              then (s\<lparr>selectedFile := None, isAdding := False\<rparr>,
                    [rq, Toast (opt_or_else (ApiResponse.message response)
                                  ''Image added successfully'') Success]
                    @ rebuild_notice response @ [OnImageAdded])
              else (s\<lparr>isAdding := False\<rparr>,
                    [rq, Toast (opt_or_else (error response) ''Failed to add image'') Error]))
         | Inl e \<Rightarrow> (s\<lparr>isAdding := False\<rparr>, [rq, Toast ''Failed to add image'' Error])))"

definition handleDeleteImage ::
  "js_string \<Rightarrow> js_string \<Rightarrow> bool \<Rightarrow> api_error + ApiResponse \<Rightarrow> person_modal
     \<Rightarrow> person_modal \<times> effect list" where
  "handleDeleteImage person filename confirm resp s =
     (if \<not> confirm then (s, [])
      else
        (let rq = Http (deleteImage person filename None) in
         case resp of
           Inr response \<Rightarrow>
             (if success response
              then (s\<lparr>deletingImage := None\<rparr>,
                    [rq, Toast ''Image deleted successfully'' Success]
                    @ rebuild_notice response @ [OnImageAdded])
              else (s\<lparr>deletingImage := None\<rparr>,
                    [rq, Toast (opt_or_else (error response) ''Failed to delete image'') Error]))
         | Inl e \<Rightarrow> (s\<lparr>deletingImage := None\<rparr>, [rq, Toast ''Failed to delete image'' Error])))"

text \<open>The \<open>auto_rebuild\<close> entries of a request's form data, and the toast the four
  handlers show for \<open>rebuild_started\<close>.\<close>

definition auto_rebuild_fields :: "request \<Rightarrow> (string \<times> form_value) list" where
  "auto_rebuild_fields rq = filter (\<lambda>kv. fst kv = ''auto_rebuild'') (form rq)"

definition rebuild_started_toast :: effect where
  "rebuild_started_toast = Toast ''Database rebuild started automatically...'' Info"

section \<open>The backend's rebuild job, from the specification\<close>

text \<open>
  The admin backend is a Python service that is not among the sources; only its
  callers are. The definitions of this section follow the specification's sections 3,
  4.2, 4.3 and 4.4. The record is the one the client declares, so the flag the
  specification calls \<open>is_running\<close> is the field \<open>is_rebuilding\<close>. Timestamps are
  the strings the wire carries.
\<close>

text \<open>Modelled from the spec: the Job State Store's record at process start, the idle
  default the Status Query Endpoint returns when no job has ever run (sections 3, 4.3).\<close>

definition idle_job :: RebuildStatus where
  "idle_job = \<lparr>is_rebuilding = False, progress = 0, status = Idle, message = [],
               started_at = None, completed_at = None, last_error = None,
               triggered_by = None\<rparr>"

text \<open>Modelled from the spec: the start state the Job Runner sets, on a fresh record
  (section 4.2: \<open>is_running=true, status=rebuilding, started_at=now, progress=0,
  triggered_by\<close>).\<close>

definition start_job :: "trigger \<Rightarrow> string \<Rightarrow> RebuildStatus" where
  "start_job tb now =
     idle_job\<lparr>is_rebuilding := True, RebuildStatus.status := Rebuilding, started_at := Some now,
              progress := 0, triggered_by := Some tb\<rparr>"

text \<open>Modelled from the spec: the Trigger Endpoint (sections 4.4, 6, 8). A trigger while
  a job runs is rejected with a result, not an exception, and changes nothing; otherwise
  the job is reset to its start state and the call returns at once.\<close>

definition trigger_endpoint ::
  "trigger \<Rightarrow> string \<Rightarrow> RebuildStatus \<Rightarrow> RebuildResponse \<times> RebuildStatus" where
  "trigger_endpoint tb now job =
     (if is_rebuilding job
      then (\<lparr>success = False, message = None, error = Some ''already in progress'',
             rebuild_started = None, rebuild_message = None, status = None\<rparr>, job)
      else (\<lparr>success = True, message = None, error = None,
             rebuild_started = None, rebuild_message = None, status = None\<rparr>,
            start_job tb now))"

text \<open>Modelled from the spec: the Status Query Endpoint, a pure read (section 4.3).\<close>

definition status_endpoint :: "RebuildStatus \<Rightarrow> RebuildStatus" where
  "status_endpoint job = job"

text \<open>Modelled from the spec: the Job Runner's writes (sections 3, 4.2). While the job
  runs it publishes a phase, a progress that does not decrease and stays within 0 to
  100, and a message; the phase goes from rebuilding to reloading and not back. It ends
  the job once, in success or in failure. With no job running there is no Runner, and
  nothing is written.\<close>

definition runner_update :: "job_status \<Rightarrow> int \<Rightarrow> string \<Rightarrow> RebuildStatus \<Rightarrow> RebuildStatus" where
  "runner_update ph p msg job =
     (if is_rebuilding job \<and> (ph = Rebuilding \<or> ph = Reloading)
         \<and> (RebuildStatus.status job = Reloading \<longrightarrow> ph = Reloading)
         \<and> progress job \<le> p \<and> p \<le> 100
      then job\<lparr>RebuildStatus.status := ph, progress := p, message := msg\<rparr>
      else job)"

text \<open>Modelled from the spec: the Job Runner's success (section 4.2: \<open>status=completed,
  is_running=false, completed_at=now, progress=100\<close>).\<close>

definition runner_success :: "string \<Rightarrow> RebuildStatus \<Rightarrow> RebuildStatus" where
  "runner_success now job =
     (if is_rebuilding job
      then job\<lparr>RebuildStatus.status := Completed, is_rebuilding := False, completed_at := Some now,
               progress := 100\<rparr>
      else job)"

text \<open>Modelled from the spec: the Job Runner's failure, caught at its boundary (section
  4.2: \<open>status=failed, is_running=false, completed_at=now, last_error=<message>\<close>).\<close>

definition runner_failure :: "string \<Rightarrow> string \<Rightarrow> RebuildStatus \<Rightarrow> RebuildStatus" where
  "runner_failure now err job =
     (if is_rebuilding job
      then job\<lparr>RebuildStatus.status := Failed, is_rebuilding := False, completed_at := Some now,
               last_error := Some err\<rparr>
      else job)"

text \<open>Modelled from the spec: what can happen to the job, in any order and any number of
  times: a trigger (manual, or the side effect of an enrolment or deletion), a progress
  report, and the two ends of a run (sections 2, 4, 6).\<close>

datatype job_event =
    Trigger trigger string
  | Update job_status int string
  | Succeed string
  | Fail string string

fun job_step :: "job_event \<Rightarrow> RebuildStatus \<Rightarrow> RebuildStatus" where
  "job_step (Trigger tb now) job = snd (trigger_endpoint tb now job)"
| "job_step (Update ph p msg) job = runner_update ph p msg job"
| "job_step (Succeed now) job = runner_success now job"
| "job_step (Fail now err) job = runner_failure now err job"

fun job_run :: "job_event list \<Rightarrow> RebuildStatus \<Rightarrow> RebuildStatus" where
  "job_run [] job = job"
| "job_run (e # es) job = job_run es (job_step e job)"

text \<open>Modelled from the spec: the invariants of section 3 and the testable properties of
  section 8 that relate the flag, the phase, the error and the progress.\<close>

definition job_inv :: "RebuildStatus \<Rightarrow> bool" where
  "job_inv job =
     ((is_rebuilding job \<longleftrightarrow>
         RebuildStatus.status job = Rebuilding \<or> RebuildStatus.status job = Reloading)
      \<and> (is_rebuilding job \<longrightarrow> last_error job = None)
      \<and> (RebuildStatus.status job = Idle \<longrightarrow> last_error job = None)
      \<and> (RebuildStatus.status job = Completed \<longrightarrow> last_error job = None \<and> progress job = 100)
      \<and> (RebuildStatus.status job = Failed \<longrightarrow> last_error job \<noteq> None))"


section \<open>Concrete records used to exercise the theorems\<close>

definition ex_running :: RebuildStatus where
  "ex_running = \<lparr>is_rebuilding = True, progress = 40, status = Rebuilding,
                 message = ''Encoding faces'', started_at = Some ''2025-01-01T10:00:00'',
                 completed_at = None, last_error = None, triggered_by = Some Manual\<rparr>"

definition ex_idle :: RebuildStatus where
  "ex_idle = \<lparr>is_rebuilding = False, progress = 0, status = Idle, message = [],
              started_at = None, completed_at = None, last_error = None,
              triggered_by = None\<rparr>"

definition ex_completed :: RebuildStatus where
  "ex_completed = \<lparr>is_rebuilding = False, progress = 100, status = Completed,
                   message = ''Database rebuilt'', started_at = Some ''2025-01-01T10:00:00'',
                   completed_at = Some ''2025-01-01T10:00:09'', last_error = None,
                   triggered_by = Some Manual\<rparr>"

definition ex_failed :: RebuildStatus where
  "ex_failed = \<lparr>is_rebuilding = False, progress = 40, status = Failed,
                message = [], started_at = Some ''2025-01-01T10:00:00'',
                completed_at = Some ''2025-01-01T10:00:05'', last_error = Some ''disk full'',
                triggered_by = Some Manual\<rparr>"

definition ex_stats :: "RebuildStatus \<Rightarrow> StatsResponse" where
  "ex_stats r = \<lparr>total_identities = 3, total_images = 7,
                 database = \<lparr>exists = True, size = 2048, modified = None\<rparr>,
                 rebuild_status = r\<rparr>"

definition ex_accepted :: RebuildResponse where
  "ex_accepted = \<lparr>success = True, message = None, error = None, rebuild_started = None,
                  rebuild_message = None, status = None\<rparr>"

definition ex_refused :: ApiResponse where
  "ex_refused = \<lparr>success = False, message = None, error = Some ''Person not found'',
                 rebuild_started = Some True, rebuild_message = None\<rparr>"

definition ex_done :: ApiResponse where
  "ex_done = \<lparr>success = True, message = Some ''Deleted'', error = None,
              rebuild_started = Some True, rebuild_message = None\<rparr>"

definition ex_modal :: person_modal where
  "ex_modal = \<lparr>selectedFile = Some ''face.jpg'', isDeleting = False, isAdding = False,
               deletingImage = None\<rparr>"

definition ex_enroll :: enroll where
  "ex_enroll = \<lparr>name = lit ''Ada'', info = lit ''visitor'', files = Some [''a.jpg'', ''b.jpg''],
                isSubmitting = False\<rparr>"

text \<open>A Dashboard that loaded a running record and polls with timer 1, and one that
  loaded an idle record.\<close>

definition ex_polling :: "event list" where
  "ex_polling = [Mount, Deliver 0 (StatsReply (Inr (ex_stats ex_running)))]"

definition ex_loaded_idle :: "event list" where
  "ex_loaded_idle = [Mount, Deliver 0 (StatsReply (Inr (ex_stats ex_idle)))]"

text \<open>One firing of timer 1 answered at once; the last reply, when there is one, answers
  the refresh.\<close>

definition ex_poll :: "api_error + RebuildStatus \<Rightarrow> api_error + StatsResponse \<Rightarrow> event list" where
  "ex_poll r sr = [Tick 1, Deliver 0 (StatusReply r), Deliver 0 (StatsReply sr)]"

text \<open>The statistics take longer than a second: timer 1 fires again while the poll that
  observed \<open>completed\<close> waits for them.\<close>

definition ex_observed :: "event list" where
  "ex_observed = [Tick 1, Deliver 0 (StatusReply (Inr ex_completed))]"

definition ex_slow_refresh :: "event list" where
  "ex_slow_refresh =
     [Tick 1, Deliver 0 (StatusReply (Inr ex_completed)),
      Tick 1, Deliver 1 (StatusReply (Inr ex_completed)),
      Deliver 0 (StatsReply (Inr (ex_stats ex_completed))),
      Deliver 0 (StatsReply (Inr (ex_stats ex_completed)))]"

text \<open>The user leaves the page before the first load is answered, and before an accepted
  trigger is answered.\<close>

definition ex_leave_while_loading :: "event list" where
  "ex_leave_while_loading = [Mount, Unmount, Deliver 0 (StatsReply (Inr (ex_stats ex_running)))]"

definition ex_leave_while_triggering :: "event list" where
  "ex_leave_while_triggering =
     ex_loaded_idle @ [ClickRebuild, Unmount, Deliver 0 (RebuildReply (Inr ex_accepted))]"

section \<open>Properties of the Dashboard\<close>

lemma send_timers [simp]:
  "intervals (send rq s) = intervals s" "pollIntervalRef (send rq s) = pollIntervalRef s"
  "next_handle (send rq s) = next_handle s" "rebuildStatus (send rq s) = rebuildStatus s"
  "loading (send rq s) = loading s" "effects (send rq s) = effects s @ [Http rq]"
  by (simp_all add: send_def)

lemma showToast_timers [simp]:
  "intervals (showToast m t s) = intervals s" "pollIntervalRef (showToast m t s) = pollIntervalRef s"
  "next_handle (showToast m t s) = next_handle s" "rebuildStatus (showToast m t s) = rebuildStatus s"
  "loading (showToast m t s) = loading s" "effects (showToast m t s) = effects s @ [Toast m t]"
  by (simp_all add: showToast_def)

lemma loadStats_timers [simp]:
  "intervals (snd (loadStats r s)) = intervals s"
  "pollIntervalRef (snd (loadStats r s)) = pollIntervalRef s"
  "next_handle (snd (loadStats r s)) = next_handle s"
  "loading (snd (loadStats r s)) = False"
  by (simp_all add: loadStats_def split: sum.splits)

lemma loadStats_effects:
  "effects (snd (loadStats r s)) =
     effects s @ Http getStats # (case r of Inl e \<Rightarrow> [Toast ''Failed to load dashboard data'' Error] | Inr d \<Rightarrow> [])"
  by (simp add: loadStats_def split: sum.splits)

lemma poll_inv_cong:
  "intervals s' = intervals s \<Longrightarrow> pollIntervalRef s' = pollIntervalRef s \<Longrightarrow>
   next_handle s' = next_handle s \<Longrightarrow> poll_inv s' = poll_inv s"
  by (simp add: poll_inv_def cong: list.case_cong)

lemma live_inv_cong:
  "intervals s' = intervals s \<Longrightarrow> pollIntervalRef s' = pollIntervalRef s \<Longrightarrow>
   next_handle s' = next_handle s \<Longrightarrow> live_inv s' = live_inv s"
  by (simp add: live_inv_def poll_inv_def cong: list.case_cong)

lemma poll_inv_cases:
  "poll_inv s \<Longrightarrow> intervals s = [] \<or> (\<exists>h. 0 < h \<and> intervals s = [(h, 1000)] \<and> pollIntervalRef s = Some h)"
  by (auto simp: poll_inv_def split: list.splits)

lemma startPolling_poll_inv: "poll_inv s \<Longrightarrow> poll_inv (startPolling s)"
  by (auto simp: poll_inv_def startPolling_def setInterval_def truthy_num_def split: list.splits option.splits)

lemma startPolling_live_inv: "live_inv s \<Longrightarrow> live_inv (startPolling s)"
  by (auto simp: live_inv_def poll_inv_def startPolling_def setInterval_def truthy_num_def split: list.splits option.splits)

lemma stop_polling_poll_inv: "poll_inv s \<Longrightarrow> poll_inv (stop_polling s)"
  by (auto simp: poll_inv_def stop_polling_def clearInterval_def truthy_num_def split: list.splits option.splits)

lemma stop_polling_live_inv: "live_inv s \<Longrightarrow> live_inv (stop_polling s)"
  by (auto simp: live_inv_def poll_inv_def stop_polling_def clearInterval_def truthy_num_def split: list.splits option.splits)

lemma cleanup_poll_inv: "poll_inv s \<Longrightarrow> poll_inv (cleanup s)"
  by (auto simp: poll_inv_def cleanup_def clearInterval_def truthy_num_def split: list.splits option.splits)

lemma cleanup_clears: "poll_inv s \<Longrightarrow> intervals (cleanup s) = []"
  by (auto simp: poll_inv_def cleanup_def clearInterval_def truthy_num_def split: list.splits option.splits)


lemma initial_live_inv: "0 < n \<Longrightarrow> live_inv (initial n)"
  by (simp add: live_inv_def poll_inv_def initial_def)

lemma live_inv_poll_inv: "live_inv s \<Longrightarrow> poll_inv s"
  by (simp add: live_inv_def)

lemma loadStats_poll_inv: "poll_inv (snd (loadStats r s)) = poll_inv s"
  by (rule poll_inv_cong) simp_all

lemma loadStats_live_inv: "live_inv (snd (loadStats r s)) = live_inv s"
  by (rule live_inv_cong) simp_all

lemma mount_poll_inv: "poll_inv s \<Longrightarrow> poll_inv (mount r s)"
  using startPolling_poll_inv [of "snd (loadStats r s)"]
  by (simp add: mount_def split_beta loadStats_poll_inv)

lemma mount_live_inv: "live_inv s \<Longrightarrow> live_inv (mount r s)"
  using startPolling_live_inv [of "snd (loadStats r s)"]
  by (simp add: mount_def split_beta loadStats_live_inv)

lemma set_status_poll_inv: "poll_inv (s\<lparr>rebuildStatus := x\<rparr>) = poll_inv s"
  by (rule poll_inv_cong) simp_all

lemma set_status_live_inv: "live_inv (s\<lparr>rebuildStatus := x\<rparr>) = live_inv s"
  by (rule live_inv_cong) simp_all

lemma send_poll_inv: "poll_inv (send rq s) = poll_inv s"
  by (rule poll_inv_cong) simp_all

lemma send_live_inv: "live_inv (send rq s) = live_inv s"
  by (rule live_inv_cong) simp_all

lemma showToast_poll_inv: "poll_inv (showToast m t s) = poll_inv s"
  by (rule poll_inv_cong) simp_all

lemma showToast_live_inv: "live_inv (showToast m t s) = live_inv s"
  by (rule live_inv_cong) simp_all

lemma pollRebuildStatus_poll_inv: "poll_inv s \<Longrightarrow> poll_inv (snd (pollRebuildStatus r sr s))"
  by (simp add: pollRebuildStatus_def Let_def send_poll_inv set_status_poll_inv
        showToast_poll_inv stop_polling_poll_inv loadStats_poll_inv split: sum.splits)

lemma pollRebuildStatus_live_inv: "live_inv s \<Longrightarrow> live_inv (snd (pollRebuildStatus r sr s))"
  by (simp add: pollRebuildStatus_def Let_def send_live_inv set_status_live_inv
        showToast_live_inv stop_polling_live_inv loadStats_live_inv split: sum.splits)

lemma handleRebuild_poll_inv: "poll_inv s \<Longrightarrow> poll_inv (handleRebuild r s)"
  by (simp add: handleRebuild_def send_poll_inv showToast_poll_inv startPolling_poll_inv
        split: sum.splits)

lemma handleRebuild_live_inv: "live_inv s \<Longrightarrow> live_inv (handleRebuild r s)"
  by (simp add: handleRebuild_def send_live_inv showToast_live_inv startPolling_live_inv
        split: sum.splits)

lemma stop_polling_fields [simp]:
  "effects (stop_polling s) = effects s" "rebuildStatus (stop_polling s) = rebuildStatus s"
  "loading (stop_polling s) = loading s"
  by (simp_all add: stop_polling_def clearInterval_def)

lemma loadStats_rebuildStatus:
  "rebuildStatus (snd (loadStats r s)) =
     (case r of Inl e \<Rightarrow> rebuildStatus s | Inr d \<Rightarrow> Some (rebuild_status d))"
  by (simp add: loadStats_def split: sum.splits)

lemma poll_terminal_effects:
  "terminal st \<Longrightarrow>
   effects (snd (pollRebuildStatus (Inr st) sr s)) =
     effects s @ [Http getRebuildStatus, Http getStats]
     @ (case sr of Inl e \<Rightarrow> [Toast ''Failed to load dashboard data'' Error] | Inr d \<Rightarrow> [])
     @ [Toast (or_else (RebuildStatus.message st)
                (if RebuildStatus.status st = Completed then ''Database rebuild completed!''
                 else ''Database rebuild failed''))
          (if RebuildStatus.status st = Completed then Success else Error)]"
  by (auto simp: pollRebuildStatus_def Let_def terminal_def loadStats_effects split: sum.splits)

lemma poll_nonterminal:
  "\<not> terminal st \<Longrightarrow>
   snd (pollRebuildStatus (Inr st) sr s) =
     s\<lparr>rebuildStatus := Some st, effects := effects s @ [Http getRebuildStatus]\<rparr>"
  by (simp add: pollRebuildStatus_def Let_def send_def)

lemma poll_failure:
  "snd (pollRebuildStatus (Inl e) sr s) = s\<lparr>effects := effects s @ [Http getRebuildStatus]\<rparr>"
  by (simp add: pollRebuildStatus_def send_def)

lemma poll_terminal_timers:
  "terminal st \<Longrightarrow> poll_inv s \<Longrightarrow> intervals s \<noteq> [] \<Longrightarrow>
   intervals (snd (pollRebuildStatus (Inr st) sr s)) = [] \<and>
   pollIntervalRef (snd (pollRebuildStatus (Inr st) sr s)) = None"
  by (auto simp: pollRebuildStatus_def Let_def stop_polling_def clearInterval_def truthy_num_def
        dest!: poll_inv_cases)

lemma requests_distinct: "getRebuildStatus \<noteq> getStats" "rebuildDatabase \<noteq> getStats"
  "rebuildDatabase \<noteq> getRebuildStatus"
  by (simp_all add: getRebuildStatus_def getStats_def rebuildDatabase_def)

lemma startPolling_starts:
  "live_inv s \<Longrightarrow> intervals s = [] \<Longrightarrow>
   intervals (startPolling s) = [(next_handle s, 1000)] \<and>
   pollIntervalRef (startPolling s) = Some (next_handle s)"
  by (simp add: live_inv_def startPolling_def setInterval_def truthy_num_def)

lemma startPolling_keeps:
  "poll_inv s \<Longrightarrow> intervals s \<noteq> [] \<Longrightarrow> startPolling s = s"
  by (auto simp: startPolling_def truthy_num_def dest!: poll_inv_cases)

lemma startPolling_twice:
  "0 < next_handle s \<Longrightarrow> startPolling (startPolling s) = startPolling s"
  by (simp add: startPolling_def setInterval_def truthy_num_def)

lemma startPolling_polling:
  "live_inv s \<Longrightarrow>
   \<exists>h. intervals (startPolling s) = [(h, 1000)] \<and> pollIntervalRef (startPolling s) = Some h"
  using startPolling_starts [of s] startPolling_keeps [of s]
  by (cases "intervals s = []") (auto simp: live_inv_def dest!: poll_inv_cases)

lemma poll_polls_once:
  "count_list (new_effects s (snd (pollRebuildStatus p sr s))) (Http getRebuildStatus) = 1"
proof (cases p)
  case (Inl e)
  then show ?thesis
    by (simp add: new_effects_def poll_failure)
next
  case (Inr st)
  then show ?thesis
    by (cases "terminal st")
       (auto simp: new_effects_def poll_nonterminal poll_terminal_effects requests_distinct
          requests_distinct [symmetric] split: sum.splits)
qed

lemma await_fields [simp]:
  "intervals (await t s) = intervals s" "pollIntervalRef (await t s) = pollIntervalRef s"
  "next_handle (await t s) = next_handle s" "rebuildStatus (await t s) = rebuildStatus s"
  "loading (await t s) = loading s" "effects (await t s) = effects s"
  "pending (await t s) = pending s @ [t]" "stats (await t s) = stats s"
  by (simp_all add: await_def)

lemma set_pending_poll_inv: "poll_inv (s\<lparr>pending := x\<rparr>) = poll_inv s"
  by (rule poll_inv_cong) simp_all

lemma set_pending_live_inv: "live_inv (s\<lparr>pending := x\<rparr>) = live_inv s"
  by (rule live_inv_cong) simp_all

lemma await_poll_inv: "poll_inv (await t s) = poll_inv s"
  by (rule poll_inv_cong) simp_all

lemma await_live_inv: "live_inv (await t s) = live_inv s"
  by (rule live_inv_cong) simp_all

lemma loadStats_resume_timers [simp]:
  "intervals (snd (loadStats_resume r s)) = intervals s"
  "pollIntervalRef (snd (loadStats_resume r s)) = pollIntervalRef s"
  "next_handle (snd (loadStats_resume r s)) = next_handle s"
  "pending (snd (loadStats_resume r s)) = pending s"
  by (simp_all add: loadStats_resume_def showToast_def split: sum.splits)

lemma loadStats_resume_poll_inv: "poll_inv (snd (loadStats_resume r s)) = poll_inv s"
  by (rule poll_inv_cong) simp_all

lemma loadStats_resume_live_inv: "live_inv (snd (loadStats_resume r s)) = live_inv s"
  by (rule live_inv_cong) simp_all

text \<open>The handler with its awaits answered at once is its pieces run one after the other.\<close>

lemma loadStats_pieces: "loadStats r s = loadStats_resume r (loadStats_call s)"
  by (simp add: loadStats_def loadStats_resume_def loadStats_call_def split: sum.splits)

lemma mount_pieces: "mount r s = mount_resume r (loadStats_call s)"
  by (simp add: mount_def mount_resume_def loadStats_pieces)

lemma handleRebuild_pieces:
  "handleRebuild r s =
     (if is_rebuilding_opt (rebuildStatus s) then handleRebuild_call s
      else handleRebuild_resume r (send rebuildDatabase s))"
  by (simp add: handleRebuild_def handleRebuild_call_def handleRebuild_resume_def
        split: sum.splits)

lemma pollRebuildStatus_pieces:
  "snd (pollRebuildStatus r sr s) =
     (case r of
        Inl e \<Rightarrow> send getRebuildStatus s
      | Inr st \<Rightarrow>
          if terminal st
          then pollRebuildStatus_finish st sr
                 (loadStats_call ((send getRebuildStatus s)\<lparr>rebuildStatus := Some st\<rparr>))
          else (send getRebuildStatus s)\<lparr>rebuildStatus := Some st\<rparr>)"
  by (simp add: pollRebuildStatus_def pollRebuildStatus_finish_def Let_def loadStats_pieces
        split: sum.splits)

lemma mount_resume_poll_inv: "poll_inv s \<Longrightarrow> poll_inv (mount_resume r s)"
  using startPolling_poll_inv [of "snd (loadStats_resume r s)"]
  by (simp add: mount_resume_def split_beta loadStats_resume_poll_inv)

lemma mount_resume_live_inv: "live_inv s \<Longrightarrow> live_inv (mount_resume r s)"
  using startPolling_live_inv [of "snd (loadStats_resume r s)"]
  by (simp add: mount_resume_def split_beta loadStats_resume_live_inv)

lemma poll_resume_poll_inv: "poll_inv s \<Longrightarrow> poll_inv (pollRebuildStatus_resume r s)"
  by (simp add: pollRebuildStatus_resume_def Let_def loadStats_call_def await_poll_inv
        send_poll_inv set_status_poll_inv split: sum.splits)

lemma poll_resume_live_inv: "live_inv s \<Longrightarrow> live_inv (pollRebuildStatus_resume r s)"
  by (simp add: pollRebuildStatus_resume_def Let_def loadStats_call_def await_live_inv
        send_live_inv set_status_live_inv split: sum.splits)

lemma poll_finish_poll_inv: "poll_inv s \<Longrightarrow> poll_inv (pollRebuildStatus_finish st r s)"
  by (simp add: pollRebuildStatus_finish_def Let_def showToast_poll_inv stop_polling_poll_inv
        loadStats_resume_poll_inv)

lemma poll_finish_live_inv: "live_inv s \<Longrightarrow> live_inv (pollRebuildStatus_finish st r s)"
  by (simp add: pollRebuildStatus_finish_def Let_def showToast_live_inv stop_polling_live_inv
        loadStats_resume_live_inv)

lemma rebuild_resume_poll_inv: "poll_inv s \<Longrightarrow> poll_inv (handleRebuild_resume r s)"
  by (simp add: handleRebuild_resume_def showToast_poll_inv startPolling_poll_inv
        split: sum.splits)

lemma rebuild_resume_live_inv: "live_inv s \<Longrightarrow> live_inv (handleRebuild_resume r s)"
  by (simp add: handleRebuild_resume_def showToast_live_inv startPolling_live_inv
        split: sum.splits)

lemma resume_poll_inv: "poll_inv s \<Longrightarrow> resume t r s = Some s' \<Longrightarrow> poll_inv s'"
  by (cases "(t, r, s)" rule: resume.cases)
     (auto simp: mount_resume_poll_inv loadStats_resume_poll_inv poll_resume_poll_inv
        poll_finish_poll_inv rebuild_resume_poll_inv)

lemma resume_live_inv: "live_inv s \<Longrightarrow> resume t r s = Some s' \<Longrightarrow> live_inv s'"
  by (cases "(t, r, s)" rule: resume.cases)
     (auto simp: mount_resume_live_inv loadStats_resume_live_inv poll_resume_live_inv
        poll_finish_live_inv rebuild_resume_live_inv)

lemma deliver_poll_inv: "poll_inv s \<Longrightarrow> poll_inv (deliver i r s)"
  using resume_poll_inv [of "s\<lparr>pending := remove_nth i (pending s)\<rparr>" "pending s ! i" r]
  by (auto simp: deliver_def set_pending_poll_inv split: option.splits)

lemma deliver_live_inv: "live_inv s \<Longrightarrow> live_inv (deliver i r s)"
  using resume_live_inv [of "s\<lparr>pending := remove_nth i (pending s)\<rparr>" "pending s ! i" r]
  by (auto simp: deliver_def set_pending_live_inv split: option.splits)

lemma step_poll_inv: "poll_inv s \<Longrightarrow> poll_inv (step e s)"
  by (cases e)
     (simp_all add: mount_call_def pollRebuildStatus_call_def handleRebuild_call_def
        loadStats_call_def await_poll_inv send_poll_inv showToast_poll_inv cleanup_poll_inv
        deliver_poll_inv)

lemma step_live_inv: "live_inv s \<Longrightarrow> e \<noteq> Unmount \<Longrightarrow> live_inv (step e s)"
  by (cases e)
     (simp_all add: mount_call_def pollRebuildStatus_call_def handleRebuild_call_def
        loadStats_call_def await_live_inv send_live_inv showToast_live_inv deliver_live_inv)

lemma run_poll_inv: "poll_inv s \<Longrightarrow> poll_inv (run evs s)"
  by (induction evs arbitrary: s) (simp_all add: step_poll_inv)

lemma run_live_inv: "live_inv s \<Longrightarrow> Unmount \<notin> set evs \<Longrightarrow> live_inv (run evs s)"
  by (induction evs arbitrary: s) (auto simp: step_live_inv)

lemma run_append: "run (xs @ ys) s = run ys (run xs s)"
  by (induction xs arbitrary: s) simp_all

lemma remove_nth_last [simp]: "remove_nth (length xs) (xs @ [x]) = xs"
  by (simp add: remove_nth_def)

lemma answered_tick_eq:
  "answered_tick h r sr s =
     (if h \<in> fst ` set (intervals s) then snd (pollRebuildStatus r sr s) else s)"
proof (cases "h \<in> fst ` set (intervals s)")
  case False
  then show ?thesis by (simp add: answered_tick_def deliver_def)
next
  case True
  show ?thesis
  proof (cases r)
    case (Inl e)
    then show ?thesis using True
      by (simp add: answered_tick_def deliver_def pollRebuildStatus_call_def
            pollRebuildStatus_resume_def pollRebuildStatus_pieces send_def await_def)
  next
    case (Inr st)
    then show ?thesis using True
      by (cases "terminal st")
         (simp_all add: answered_tick_def deliver_def pollRebuildStatus_call_def
            pollRebuildStatus_resume_def pollRebuildStatus_pieces send_def await_def Let_def
            loadStats_call_def nth_append)
  qed
qed

lemma mount_answered: "run [Mount, Deliver (length (pending s)) (StatsReply r)] s = mount r s"
  by (simp add: deliver_def mount_call_def mount_pieces loadStats_call_def send_def await_def)

lemma handleRebuild_answered:
  "run [ClickRebuild, Deliver (length (pending s)) (RebuildReply r)] s = handleRebuild r s"
  by (simp add: deliver_def handleRebuild_call_def handleRebuild_pieces send_def await_def
        showToast_def)

lemmas dashboard_defs =
  initial_def setInterval_def clearInterval_def showToast_def send_def loadStats_def
  terminal_def stop_polling_def pollRebuildStatus_def startPolling_def is_rebuilding_opt_def
  mount_def cleanup_def handleRebuild_def progress_indicator_def new_effects_def
  truthy_num_def or_else_def opt_or_else_def getStats_def getRebuildStatus_def
  rebuildDatabase_def

lemmas machine_defs =
  await_def loadStats_call_def loadStats_resume_def pollRebuildStatus_call_def
  pollRebuildStatus_resume_def pollRebuildStatus_finish_def mount_call_def mount_resume_def
  handleRebuild_call_def handleRebuild_resume_def deliver_def remove_nth_def

lemmas example_defs =
  ex_running_def ex_completed_def ex_failed_def ex_stats_def ex_accepted_def ex_idle_def
  ex_polling_def ex_loaded_idle_def ex_poll_def

lemma ex_polling_state:
  "run ex_polling (initial 1) =
     \<lparr>stats = Some (ex_stats ex_running), rebuildStatus = Some ex_running, loading = False,
      pollIntervalRef = Some 1, intervals = [(1, 1000)], next_handle = 2,
      effects = [Http getStats], pending = []\<rparr>"
  by (simp add: dashboard_defs machine_defs ex_polling_def ex_running_def ex_stats_def)

lemma ex_loaded_idle_state:
  "run ex_loaded_idle (initial 1) =
     \<lparr>stats = Some (ex_stats ex_idle), rebuildStatus = Some ex_idle, loading = False,
      pollIntervalRef = None, intervals = [], next_handle = 1,
      effects = [Http getStats], pending = []\<rparr>"
  by (simp add: dashboard_defs machine_defs ex_loaded_idle_def ex_idle_def ex_stats_def)

text \<open>
  Claim C1. The poller is to stop its timer on first observing \<open>completed\<close> or
  \<open>failed\<close> and to refresh the full state exactly once. The code clears the timer only
  after the refresh it awaits. On a Dashboard that polls with timer 1, let the statistics
  take longer than the period of one second. After the poll has observed \<open>completed\<close>
  the timer is still active and the poll waits for the statistics; the timer fires again,
  the second poll observes \<open>completed\<close> too, and in the end the status was requested
  twice, the statistics were requested twice and the success toast was shown twice. When
  the statistics arrive before the next firing there is one refresh.
\<close>

theorem slow_refresh_polls_again:
  "intervals (run (ex_polling @ ex_observed) (initial 1)) = [(1, 1000)]
   \<and> pending (run (ex_polling @ ex_observed) (initial 1)) = [PollRefresh ex_completed]
   \<and> count_list (new_effects (run ex_polling (initial 1))
         (run (ex_polling @ ex_slow_refresh) (initial 1))) (Http getRebuildStatus) = 2
   \<and> count_list (new_effects (run ex_polling (initial 1))
         (run (ex_polling @ ex_slow_refresh) (initial 1))) (Http getStats) = 2
   \<and> filter is_toast (new_effects (run ex_polling (initial 1))
         (run (ex_polling @ ex_slow_refresh) (initial 1)))
       = [Toast ''Database rebuilt'' Success, Toast ''Database rebuilt'' Success]
   \<and> stats (run (ex_polling @ ex_slow_refresh) (initial 1)) = Some (ex_stats ex_completed)
   \<and> intervals (run (ex_polling @ ex_slow_refresh) (initial 1)) = []
   \<and> count_list (new_effects (run ex_polling (initial 1))
         (run (ex_polling @ ex_poll (Inr ex_completed) (Inr (ex_stats ex_completed))) (initial 1)))
         (Http getStats) = 1"
  unfolding run_append ex_polling_state
  by (simp add: ex_observed_def ex_slow_refresh_def ex_poll_def dashboard_defs machine_defs
        ex_completed_def ex_stats_def)

text \<open>
  Claim C7. The teardown is to leave no poll timer running. The cleanup clears the timer
  that exists when it runs, and it does not cancel the handlers that wait for a response.
  When the user leaves while the first load is pending, no timer is active after the
  cleanup, and the response that shows a running job then starts timer 1, which fires and
  polls; the same happens when the user leaves while an accepted trigger is pending.
\<close>

theorem timer_started_after_teardown:
  "intervals (run (ex_polling @ [Unmount]) (initial 1)) = []
   \<and> intervals (run [Mount, Unmount] (initial 1)) = []
   \<and> pending (run [Mount, Unmount] (initial 1)) = [InitialLoad]
   \<and> intervals (run ex_leave_while_loading (initial 1)) = [(1, 1000)]
   \<and> count_list (effects (run (ex_leave_while_loading @ [Tick 1]) (initial 1)))
         (Http getRebuildStatus) = 1
   \<and> intervals (run ex_leave_while_triggering (initial 1)) = [(1, 1000)]"
  unfolding ex_leave_while_triggering_def run_append ex_polling_state ex_loaded_idle_state
  by (simp add: ex_leave_while_loading_def dashboard_defs machine_defs ex_running_def
        ex_idle_def ex_stats_def ex_accepted_def)

text \<open>A poll that is answered before the timer fires again stops the timer and stores the
  statistics it loaded.\<close>

lemma answered_poll_stops:
  assumes "live_inv s" and "h \<in> fst ` set (intervals s)" and "terminal st"
  shows "intervals (answered_tick h (Inr st) (Inr d) s) = []
       \<and> pollIntervalRef (answered_tick h (Inr st) (Inr d) s) = None
       \<and> count_list (new_effects s (answered_tick h (Inr st) (Inr d) s)) (Http getStats) = 1
       \<and> stats (answered_tick h (Inr st) (Inr d) s) = Some d
       \<and> rebuildStatus (answered_tick h (Inr st) (Inr d) s) = Some (rebuild_status d)"
proof -
  have ne: "intervals s \<noteq> []" using assms(2) by auto
  have eq: "answered_tick h (Inr st) (Inr d) s = snd (pollRebuildStatus (Inr st) (Inr d) s)"
    using assms(2) by (simp add: answered_tick_eq)
  have t: "intervals (snd (pollRebuildStatus (Inr st) (Inr d) s)) = []
         \<and> pollIntervalRef (snd (pollRebuildStatus (Inr st) (Inr d) s)) = None"
    using poll_terminal_timers [of st s "Inr d"] assms ne by (simp add: live_inv_def)
  have c: "count_list (new_effects s (snd (pollRebuildStatus (Inr st) (Inr d) s))) (Http getStats) = 1"
    using assms(3)
    by (simp add: new_effects_def poll_terminal_effects requests_distinct)
  have r: "stats (snd (pollRebuildStatus (Inr st) (Inr d) s)) = Some d
         \<and> rebuildStatus (snd (pollRebuildStatus (Inr st) (Inr d) s)) = Some (rebuild_status d)"
    using assms(3)
    by (auto simp: pollRebuildStatus_def Let_def loadStats_def stop_polling_def clearInterval_def
          showToast_def send_def terminal_def)
  show ?thesis unfolding eq using t c r by simp
qed

text \<open>
  Claim C6. A poll whose request fails changes nothing but the record of the request:
  the timer and the ref stay, the cached status stays, no toast is shown, no refresh is
  made, and the result is \<open>null\<close>. This holds for the failure of any pending poll,
  whenever it arrives. The next firing of the same timer polls again.
\<close>

theorem poll_failure_swallowed:
  "snd (pollRebuildStatus (Inl e) sr s) = s\<lparr>effects := effects s @ [Http getRebuildStatus]\<rparr>
   \<and> fst (pollRebuildStatus (Inl e) sr s) = None
   \<and> (i < length (pending s) \<and> pending s ! i = PollStatus \<longrightarrow>
        step (Deliver i (StatusReply (Inl e))) s = s\<lparr>pending := remove_nth i (pending s)\<rparr>)
   \<and> intervals (answered_tick h (Inl e) sr s) = intervals s
   \<and> pollIntervalRef (answered_tick h (Inl e) sr s) = pollIntervalRef s
   \<and> rebuildStatus (answered_tick h (Inl e) sr s) = rebuildStatus s
   \<and> filter is_toast (new_effects s (answered_tick h (Inl e) sr s)) = []
   \<and> count_list (new_effects s (answered_tick h (Inl e) sr s)) (Http getStats) = 0
   \<and> (h \<in> fst ` set (intervals s) \<longrightarrow>
        count_list (new_effects (answered_tick h (Inl e) sr s)
          (answered_tick h p' sr' (answered_tick h (Inl e) sr s))) (Http getRebuildStatus) = 1)"
proof -
  let ?s' = "answered_tick h (Inl e) sr s"
  have a: "snd (pollRebuildStatus (Inl e) sr s) = s\<lparr>effects := effects s @ [Http getRebuildStatus]\<rparr>"
    by (rule poll_failure)
  have b: "fst (pollRebuildStatus (Inl e) sr s) = None"
    by (simp add: pollRebuildStatus_def)
  have g: "i < length (pending s) \<and> pending s ! i = PollStatus \<longrightarrow>
        step (Deliver i (StatusReply (Inl e))) s = s\<lparr>pending := remove_nth i (pending s)\<rparr>"
    by (simp add: deliver_def pollRebuildStatus_resume_def)
  have c: "intervals ?s' = intervals s" "pollIntervalRef ?s' = pollIntervalRef s"
    "rebuildStatus ?s' = rebuildStatus s"
    by (simp_all add: answered_tick_eq poll_failure)
  have d: "filter is_toast (new_effects s ?s') = []"
    "count_list (new_effects s ?s') (Http getStats) = 0"
    by (simp_all add: answered_tick_eq poll_failure new_effects_def requests_distinct)
  have f: "h \<in> fst ` set (intervals s) \<longrightarrow>
        count_list (new_effects ?s' (answered_tick h p' sr' ?s')) (Http getRebuildStatus) = 1"
  proof
    assume "h \<in> fst ` set (intervals s)"
    then have "h \<in> fst ` set (intervals ?s')" using c(1) by simp
    then have "answered_tick h p' sr' ?s' = snd (pollRebuildStatus p' sr' ?s')"
      by (simp only: answered_tick_eq [of h p' sr' ?s'] if_True)
    then show "count_list (new_effects ?s' (answered_tick h p' sr' ?s')) (Http getRebuildStatus) = 1"
      using poll_polls_once [of ?s' p' sr'] by simp
  qed
  from a b g c d f show ?thesis by blast
qed

text \<open>
  A network error on timer 1, followed by a poll that goes through.
\<close>

theorem poll_failure_swallowed_witness:
  "pending (run (ex_polling @ [Tick 1]) (initial 1)) ! 0 = PollStatus
   \<and> 0 < length (pending (run (ex_polling @ [Tick 1]) (initial 1)))
   \<and> 1 \<in> fst ` set (intervals (run ex_polling (initial 1)))
   \<and> intervals (answered_tick 1 (Inl (AxiosError ''Network Error'')) (Inr (ex_stats ex_running))
        (run ex_polling (initial 1))) = [(1, 1000)]
   \<and> count_list (new_effects
          (answered_tick 1 (Inl (AxiosError ''Network Error'')) (Inr (ex_stats ex_running))
             (run ex_polling (initial 1)))
          (answered_tick 1 (Inr ex_running) (Inr (ex_stats ex_running))
             (answered_tick 1 (Inl (AxiosError ''Network Error'')) (Inr (ex_stats ex_running))
                (run ex_polling (initial 1)))))
        (Http getRebuildStatus) = 1"
  using poll_failure_swallowed
          [where h = 1 and e = "AxiosError ''Network Error''" and sr = "Inr (ex_stats ex_running)"
             and s = "run ex_polling (initial 1)"
             and p' = "Inr ex_running" and sr' = "Inr (ex_stats ex_running)"]
        poll_failure_swallowed
          [where i = 0 and e = "AxiosError ''Network Error''"
             and s = "run (ex_polling @ [Tick 1]) (initial 1)"]
  unfolding run_append ex_polling_state
  by (simp add: answered_tick_def dashboard_defs machine_defs ex_running_def ex_stats_def)

text \<open>Right after the cleanup no timer is active.\<close>

lemma cleanup_leaves_no_timer: "0 < n \<Longrightarrow> intervals (step Unmount (run evs (initial n))) = []"
  using cleanup_clears [of "run evs (initial n)"]
  by (simp add: run_poll_inv initial_live_inv live_inv_poll_inv)

text \<open>
  Claim C9. In every state the Dashboard reaches, under every order of firings, clicks
  and responses, \<open>startPolling\<close> does nothing when a poll timer exists, calling it twice
  is calling it once, and at most one interval timer is active, before the call and after
  it. The browser's handles are positive.
\<close>

theorem startPolling_idempotent:
  assumes "0 < n" and "s = run evs (initial n)"
  shows "(intervals s \<noteq> [] \<longrightarrow> startPolling s = s)
       \<and> startPolling (startPolling s) = startPolling s
       \<and> length (intervals s) \<le> 1
       \<and> length (intervals (startPolling s)) \<le> 1"
proof -
  have inv: "poll_inv s"
    using assms by (simp add: run_poll_inv initial_live_inv live_inv_poll_inv)
  have a: "intervals s \<noteq> [] \<longrightarrow> startPolling s = s"
    using inv by (simp add: startPolling_keeps)
  have b: "startPolling (startPolling s) = startPolling s"
    using inv by (simp add: startPolling_twice poll_inv_def)
  have c: "length (intervals s) \<le> 1"
    using poll_inv_cases [OF inv] by auto
  have d: "length (intervals (startPolling s)) \<le> 1"
    using poll_inv_cases [OF startPolling_poll_inv [OF inv]] by auto
  from a b c d show ?thesis by blast
qed

text \<open>
  On a Dashboard that is polling, \<open>startPolling\<close> changes nothing; the schedules with
  a slow refresh and with an early unmount never hold two timers.
\<close>

theorem startPolling_idempotent_witness:
  "0 < (1::nat)
   \<and> intervals (run ex_polling (initial 1)) \<noteq> []
   \<and> startPolling (run ex_polling (initial 1)) = run ex_polling (initial 1)
   \<and> length (intervals (startPolling (run ex_polling (initial 1)))) = 1
   \<and> length (intervals (run (ex_polling @ ex_slow_refresh) (initial 1))) \<le> 1
   \<and> length (intervals (run ex_leave_while_triggering (initial 1))) \<le> 1"
  using startPolling_idempotent
          [where n = 1 and evs = ex_polling and s = "run ex_polling (initial 1)"]
        startPolling_idempotent
          [where n = 1 and evs = "ex_polling @ ex_slow_refresh"
             and s = "run (ex_polling @ ex_slow_refresh) (initial 1)"]
        startPolling_idempotent
          [where n = 1 and evs = ex_leave_while_triggering
             and s = "run ex_leave_while_triggering (initial 1)"]
  unfolding ex_polling_state
  by (simp add: startPolling_def truthy_num_def)

text \<open>
  Claim C10. When the cached status record shows a running job, \<open>handleRebuild\<close> shows
  the warning toast and nothing else: no request to \<open>/api/rebuild_db\<close> is sent, nothing
  is awaited and no timer is touched, whatever the backend would have answered.
\<close>

theorem handleRebuild_guard:
  assumes "is_rebuilding_opt (rebuildStatus s)"
  shows "handleRebuild resp s = showToast ''Rebuild already in progress'' Warning s
       \<and> new_effects s (handleRebuild resp s) = [Toast ''Rebuild already in progress'' Warning]
       \<and> Http rebuildDatabase \<notin> set (new_effects s (handleRebuild resp s))
       \<and> intervals (handleRebuild resp s) = intervals s
       \<and> step ClickRebuild s = showToast ''Rebuild already in progress'' Warning s
       \<and> pending (step ClickRebuild s) = pending s"
  using assms by (simp add: handleRebuild_def new_effects_def handleRebuild_call_def showToast_def)

text \<open>
  A click while the cached record shows a running job, with a backend that would accept.
\<close>

theorem handleRebuild_guard_witness:
  "is_rebuilding_opt (rebuildStatus (run ex_polling (initial 1)))
   \<and> new_effects (run ex_polling (initial 1))
        (handleRebuild (Inr ex_accepted) (run ex_polling (initial 1)))
      = [Toast ''Rebuild already in progress'' Warning]
   \<and> pending (run (ex_polling @ [ClickRebuild]) (initial 1)) = []"
  using handleRebuild_guard [where s = "run ex_polling (initial 1)" and resp = "Inr ex_accepted"]
  unfolding run_append ex_polling_state
  by (simp add: dashboard_defs machine_defs ex_running_def)




section \<open>Properties of the forms\<close>

lemmas api_defs =
  enrollPerson_def addImage_def deletePerson_def deleteImage_def default_true_def
  toString_bool_def

lemmas form_defs =
  handleSubmit_def handleDelete_def handleAddImage_def handleDeleteImage_def rebuild_notice_def
  truthy_bool_def

lemmas form_example_defs =
  ex_refused_def ex_done_def ex_modal_def ex_enroll_def

text \<open>\<open>trim\<close> on white space beyond ASCII; U+0085 is not white space in ECMAScript.\<close>

lemma trim_white_space:
  "trim [0x00A0, 0x3000, 0x0041, 0x0020, 0x0061, 0xFEFF, 0x2028, 0x200A] = [0x0041, 0x0020, 0x0061]"
  "trim [0x00A0] = []" "trim [0x0085] = [0x0085]"
  by (simp_all add: trim_def is_space_def)

lemma handleSubmit_blank_name:
  "trim (name e) = [] \<Longrightarrow>
   handleSubmit resp e = (e, [Toast ''Person name cannot be empty.'' Warning])"
  by (simp add: handleSubmit_def)

lemma auto_rebuild_sent:
  "auto_rebuild_fields (enrollPerson n i imgs a) = [(''auto_rebuild'', Text (lit (toString_bool (default_true a))))]"
  "auto_rebuild_fields (addImage n f a) = [(''auto_rebuild'', Text (lit (toString_bool (default_true a))))]"
  "auto_rebuild_fields (deletePerson n a) = [(''auto_rebuild'', Text (lit (toString_bool (default_true a))))]"
  "auto_rebuild_fields (deleteImage n fn a) = [(''auto_rebuild'', Text (lit (toString_bool (default_true a))))]"
  by (simp_all add: auto_rebuild_fields_def enrollPerson_def addImage_def deletePerson_def
       deleteImage_def filter_map comp_def)

lemma notice_iff:
  "rebuild_started_toast \<in> set (rebuild_notice r) \<longleftrightarrow> rebuild_started r = Some True"
  by (simp add: rebuild_notice_def truthy_bool_def rebuild_started_toast_def)

text \<open>
  Claim C8, as amended. Each of \<open>enrollPerson\<close>, \<open>addImage\<close>, \<open>deletePerson\<close> and
  \<open>deleteImage\<close> sends exactly one \<open>auto_rebuild\<close> entry, the text of the flag, which is
  \<open>true\<close> when the argument is left out. Each handler that receives a response shows the
  informational toast exactly when the response reports success and its
  \<open>rebuild_started\<close> is \<open>true\<close>.
\<close>

theorem crud_auto_rebuild:
  "auto_rebuild_fields (enrollPerson n i imgs a) = [(''auto_rebuild'', Text (lit (toString_bool (default_true a))))]
   \<and> auto_rebuild_fields (addImage n f a) = [(''auto_rebuild'', Text (lit (toString_bool (default_true a))))]
   \<and> auto_rebuild_fields (deletePerson n a) = [(''auto_rebuild'', Text (lit (toString_bool (default_true a))))]
   \<and> auto_rebuild_fields (deleteImage n fn a) = [(''auto_rebuild'', Text (lit (toString_bool (default_true a))))]
   \<and> lit (toString_bool (default_true None)) = lit ''true''
   \<and> (trim (name e) \<noteq> [] \<and> files e \<noteq> None \<and> files e \<noteq> Some [] \<longrightarrow>
        (rebuild_started_toast \<in> set (snd (handleSubmit (Inr r) e))
           \<longleftrightarrow> success r \<and> rebuild_started r = Some True))
   \<and> (rebuild_started_toast \<in> set (snd (handleDelete n True (Inr r) m))
           \<longleftrightarrow> success r \<and> rebuild_started r = Some True)
   \<and> (selectedFile m \<noteq> None \<longrightarrow>
        (rebuild_started_toast \<in> set (snd (handleAddImage n (Inr r) m))
           \<longleftrightarrow> success r \<and> rebuild_started r = Some True))
   \<and> (rebuild_started_toast \<in> set (snd (handleDeleteImage n fn True (Inr r) m))
           \<longleftrightarrow> success r \<and> rebuild_started r = Some True)"
proof -
  have a: "trim (name e) \<noteq> [] \<and> files e \<noteq> None \<and> files e \<noteq> Some [] \<longrightarrow>
        (rebuild_started_toast \<in> set (snd (handleSubmit (Inr r) e))
           \<longleftrightarrow> success r \<and> rebuild_started r = Some True)"
    using notice_iff [of r]
    by (cases "success r") (auto simp: handleSubmit_def Let_def rebuild_started_toast_def)
  have b: "rebuild_started_toast \<in> set (snd (handleDelete n True (Inr r) m))
           \<longleftrightarrow> success r \<and> rebuild_started r = Some True"
    using notice_iff [of r]
    by (cases "success r") (auto simp: handleDelete_def Let_def rebuild_started_toast_def)
  have c: "selectedFile m \<noteq> None \<longrightarrow>
        (rebuild_started_toast \<in> set (snd (handleAddImage n (Inr r) m))
           \<longleftrightarrow> success r \<and> rebuild_started r = Some True)"
    using notice_iff [of r]
    by (cases "success r") (auto simp: handleAddImage_def Let_def rebuild_started_toast_def)
  have d: "rebuild_started_toast \<in> set (snd (handleDeleteImage n fn True (Inr r) m))
           \<longleftrightarrow> success r \<and> rebuild_started r = Some True"
    using notice_iff [of r]
    by (cases "success r") (auto simp: handleDeleteImage_def Let_def rebuild_started_toast_def)
  have t: "lit (toString_bool (default_true None)) = lit ''true''"
    by (simp add: toString_bool_def default_true_def)
  from a b c d t auto_rebuild_sent show ?thesis by blast
qed

text \<open>
  The handlers on a response that reports success and a started rebuild.
\<close>

theorem crud_auto_rebuild_witness:
  "trim (name ex_enroll) \<noteq> [] \<and> files ex_enroll \<noteq> None \<and> files ex_enroll \<noteq> Some []
   \<and> selectedFile ex_modal \<noteq> None
   \<and> success ex_done \<and> rebuild_started ex_done = Some True
   \<and> snd (handleSubmit (Inr ex_done) ex_enroll) =
        [Http (enrollPerson (lit ''Ada'') (lit ''visitor'') [''a.jpg'', ''b.jpg''] None),
         Toast ''Deleted'' Success, rebuild_started_toast, Navigate ''/identities'']
   \<and> auto_rebuild_fields (enrollPerson (lit ''Ada'') (lit ''visitor'') [''a.jpg'', ''b.jpg''] None)
        = [(''auto_rebuild'', Text (lit ''true''))]
   \<and> rebuild_started_toast \<in> set (snd (handleAddImage (lit ''Ada'') (Inr ex_done) ex_modal))
   \<and> rebuild_started_toast \<in> set (snd (handleDelete (lit ''Ada'') True (Inr ex_done) ex_modal))"
  using crud_auto_rebuild
          [where e = ex_enroll and m = ex_modal and r = ex_done and n = "lit ''Ada''"
             and i = "lit ''visitor''" and imgs = "[''a.jpg'', ''b.jpg'']" and a = None
             and f = "''face.jpg''" and fn = "lit ''old.jpg''"]
  by (simp add: api_defs form_defs form_example_defs rebuild_started_toast_def
        auto_rebuild_fields_def opt_or_else_def or_else_def lit_def trim_def is_space_def)

text \<open>
  Claim C8 as it was stated fails on a response with \<open>success\<close> false and
  \<open>rebuild_started\<close> true: the handler shows the error toast only.
\<close>

theorem crud_auto_rebuild_counterexample:
  "rebuild_started ex_refused = Some True
   \<and> rebuild_started_toast \<notin> set (snd (handleDelete (lit ''Ada'') True (Inr ex_refused) ex_modal))
   \<and> snd (handleDelete (lit ''Ada'') True (Inr ex_refused) ex_modal) =
        [Http (deletePerson (lit ''Ada'') None), Toast ''Person not found'' Error]"
  by (simp add: form_defs form_example_defs rebuild_started_toast_def opt_or_else_def
        or_else_def)

section \<open>Properties of the rebuild job\<close>

lemmas job_defs =
  idle_job_def start_job_def trigger_endpoint_def status_endpoint_def runner_update_def
  runner_success_def runner_failure_def

lemma idle_job_inv: "job_inv idle_job"
  by (simp add: job_inv_def idle_job_def)

lemma job_step_inv: "job_inv job \<Longrightarrow> job_inv (job_step e job)"
  by (cases e) (auto simp: job_inv_def job_defs)

lemma job_run_inv: "job_inv job \<Longrightarrow> job_inv (job_run es job)"
  by (induction es arbitrary: job) (simp_all add: job_step_inv)

lemma object_keys:
  "map fst (RebuildStatus_object r) =
     [''is_rebuilding'', ''progress'', ''status'', ''message'', ''started_at'', ''completed_at'',
      ''last_error'', ''triggered_by'']"
  by (simp add: RebuildStatus_object_def)

text \<open>
  Claim C4. In every state the rebuild job reaches from the idle default, the status
  \<open>completed\<close> comes with no \<open>last_error\<close> and a progress of 100, and the status
  \<open>failed\<close> comes with a \<open>last_error\<close>.
\<close>

theorem job_terminal_invariant:
  "(RebuildStatus.status (job_run es idle_job) = Completed \<longrightarrow>
      last_error (job_run es idle_job) = None \<and> progress (job_run es idle_job) = 100)
   \<and> (RebuildStatus.status (job_run es idle_job) = Failed \<longrightarrow>
      last_error (job_run es idle_job) \<noteq> None)"
  using job_run_inv [OF idle_job_inv, of es] by (simp add: job_inv_def)

text \<open>
  A run that succeeds and a run that fails.
\<close>

theorem job_terminal_invariant_witness:
  "RebuildStatus.status (job_run [Trigger Manual ''10:00'', Update Rebuilding 50 ''encoding'',
        Update Reloading 90 ''reload'', Succeed ''10:09''] idle_job) = Completed
   \<and> last_error (job_run [Trigger Manual ''10:00'', Update Rebuilding 50 ''encoding'',
        Update Reloading 90 ''reload'', Succeed ''10:09''] idle_job) = None
   \<and> progress (job_run [Trigger Manual ''10:00'', Update Rebuilding 50 ''encoding'',
        Update Reloading 90 ''reload'', Succeed ''10:09''] idle_job) = 100
   \<and> RebuildStatus.status (job_run [Trigger Enroll ''10:00'', Update Rebuilding 50 ''encoding'',
        Fail ''10:05'' ''disk full''] idle_job) = Failed
   \<and> last_error (job_run [Trigger Enroll ''10:00'', Update Rebuilding 50 ''encoding'',
        Fail ''10:05'' ''disk full''] idle_job) = Some ''disk full''"
  using job_terminal_invariant
          [of "[Trigger Manual ''10:00'', Update Rebuilding 50 ''encoding'',
                Update Reloading 90 ''reload'', Succeed ''10:09'']"]
        job_terminal_invariant
          [of "[Trigger Enroll ''10:00'', Update Rebuilding 50 ''encoding'',
                Fail ''10:05'' ''disk full'']"]
  by (simp add: job_defs)

text \<open>
  Claim C2, as amended. The status record has a boolean property named
  \<open>is_rebuilding\<close>, beside \<open>progress\<close>, \<open>status\<close>, \<open>message\<close>, \<open>started_at\<close>,
  \<open>completed_at\<close>, \<open>last_error\<close> and \<open>triggered_by\<close>, and no others. In every state
  the job reaches, the flag is true exactly in the phases \<open>rebuilding\<close> and
  \<open>reloading\<close>, that is after the start and before the terminal state.
\<close>

theorem status_record_fields:
  "map_of (RebuildStatus_object r) ''is_rebuilding'' = Some (JBool (is_rebuilding r))
   \<and> map fst (RebuildStatus_object r) =
       [''is_rebuilding'', ''progress'', ''status'', ''message'', ''started_at'',
        ''completed_at'', ''last_error'', ''triggered_by'']
   \<and> (is_rebuilding (job_run es idle_job) \<longleftrightarrow>
        RebuildStatus.status (job_run es idle_job) = Rebuilding
        \<or> RebuildStatus.status (job_run es idle_job) = Reloading)"
  using job_run_inv [OF idle_job_inv, of es]
  by (simp add: job_inv_def RebuildStatus_object_def)

text \<open>
  The flag along the life of a job.
\<close>

theorem status_record_fields_witness:
  "map_of (RebuildStatus_object ex_running) ''is_rebuilding'' = Some (JBool True)
   \<and> \<not> is_rebuilding (job_run [] idle_job)
   \<and> is_rebuilding (job_run [Trigger Manual ''10:00''] idle_job)
   \<and> RebuildStatus.status (job_run [Trigger Manual ''10:00''] idle_job) = Rebuilding
   \<and> is_rebuilding (job_run [Trigger Manual ''10:00'', Update Reloading 90 ''reload''] idle_job)
   \<and> \<not> is_rebuilding (job_run [Trigger Manual ''10:00'', Succeed ''10:09''] idle_job)
   \<and> \<not> is_rebuilding (job_run [Trigger Manual ''10:00'', Fail ''10:05'' ''disk full''] idle_job)"
  using status_record_fields [of ex_running "[Trigger Manual ''10:00'']"]
        status_record_fields [of ex_running "[Trigger Manual ''10:00'', Succeed ''10:09'']"]
  by (simp add: job_defs ex_running_def RebuildStatus_object_def)

text \<open>
  Claim C2 as it was stated fails: the record has no property named \<open>is_running\<close>.
\<close>

theorem status_record_fields_counterexample:
  "map_of (RebuildStatus_object ex_running) ''is_running'' = None
   \<and> ''is_running'' \<notin> set (map fst (RebuildStatus_object ex_running))"
  by (simp add: RebuildStatus_object_def)

lemma response_object_lookup:
  "map_of (RebuildResponse_object r) ''success'' = Some (JBool (success r))"
  "map_of (RebuildResponse_object r) ''error'' = map_option JStr (error r)"
  "map_of (RebuildResponse_object r) ''status'' =
     map_option (JObj \<circ> RebuildStatus_object) (RebuildResponse.status r)"
  by (simp_all add: RebuildResponse_object_def optional_def map_add_def split: option.splits)

text \<open>
  Claim C3. The response to \<open>POST /api/rebuild_db\<close> carries \<open>success\<close>, and \<open>error\<close>
  and \<open>status\<close> when they are present. A trigger while a job runs returns a response
  with \<open>success\<close> false and an error text, as a value and not as an exception, and
  leaves the job as it was; the Dashboard that receives it shows an error toast and starts
  no polling.
\<close>

theorem trigger_rejects_when_running:
  "map_of (RebuildResponse_object r) ''success'' = Some (JBool (success r))
   \<and> map_of (RebuildResponse_object r) ''error'' = map_option JStr (error r)
   \<and> map_of (RebuildResponse_object r) ''status'' =
        map_option (JObj \<circ> RebuildStatus_object) (RebuildResponse.status r)
   \<and> (is_rebuilding job \<longrightarrow>
        success (fst (trigger_endpoint tb now job)) = False
        \<and> error (fst (trigger_endpoint tb now job)) = Some ''already in progress''
        \<and> snd (trigger_endpoint tb now job) = job
        \<and> (\<not> is_rebuilding_opt (rebuildStatus s) \<longrightarrow>
             new_effects s (handleRebuild (Inr (fst (trigger_endpoint tb now job))) s) =
               [Http rebuildDatabase, Toast ''Failed to start rebuild: already in progress'' Error]
             \<and> intervals (handleRebuild (Inr (fst (trigger_endpoint tb now job))) s) = intervals s))"
  by (simp add: response_object_lookup trigger_endpoint_def handleRebuild_def new_effects_def
        opt_or_else_def or_else_def)

text \<open>
  A manual trigger one minute into a rebuild started by an enrolment.
\<close>

theorem trigger_rejects_when_running_witness:
  "is_rebuilding (job_run [Trigger Enroll ''10:00''] idle_job)
   \<and> \<not> is_rebuilding_opt (rebuildStatus (run ex_loaded_idle (initial 1)))
   \<and> success (fst (trigger_endpoint Manual ''10:01'' (job_run [Trigger Enroll ''10:00''] idle_job)))
       = False
   \<and> started_at (snd (trigger_endpoint Manual ''10:01'' (job_run [Trigger Enroll ''10:00''] idle_job)))
       = Some ''10:00''
   \<and> triggered_by (snd (trigger_endpoint Manual ''10:01'' (job_run [Trigger Enroll ''10:00''] idle_job)))
       = Some Enroll
   \<and> intervals (handleRebuild
        (Inr (fst (trigger_endpoint Manual ''10:01'' (job_run [Trigger Enroll ''10:00''] idle_job))))
        (run ex_loaded_idle (initial 1))) = []"
  using trigger_rejects_when_running
          [where job = "job_run [Trigger Enroll ''10:00''] idle_job" and tb = Manual
             and now = "''10:01''" and s = "run ex_loaded_idle (initial 1)"
             and r = ex_accepted]
  unfolding ex_loaded_idle_state
  by (simp add: job_defs dashboard_defs ex_idle_def ex_accepted_def)

end
